theory Spec2Isabelle
  imports Complex_Main
begin

section \<open>Python values, errors and built-ins\<close>

text \<open>
  The function of \<^verbatim>\<open>calculate_reimbursement.py\<close> works on a Python \<^verbatim>\<open>int\<close>
  (the trip duration) and on Python floats (miles, receipts, every amount). The
  unbounded \<^verbatim>\<open>int\<close> is \<^typ>\<open>int\<close>; a float is modelled by the real number it
  stands for, and the decimal constants of the source (\<^verbatim>\<open>0.75\<close>, \<^verbatim>\<open>1.15\<close>, ...)
  by the decimal fractions they are written as. The binary representation of floats
  (representation error, infinities, NaN, the range of a double) is outside this model.

  The operations of the source that can raise are modelled with the error as a value:
  true division raises \<^verbatim>\<open>ZeroDivisionError\<close> on a zero divisor, and subscripting
  a dictionary raises \<^verbatim>\<open>KeyError\<close> on a missing key.
\<close>

datatype py_error = ZeroDivisionError | KeyError string

definition py_truediv :: "real \<Rightarrow> real \<Rightarrow> py_error + real" where
  "py_truediv a b = (if b = 0 then Inl ZeroDivisionError else Inr (a / b))"

definition py_getitem :: "(string \<times> 'v) list \<Rightarrow> string \<Rightarrow> py_error + 'v" where
  "py_getitem d k = (case map_of d k of None \<Rightarrow> Inl (KeyError k) | Some v \<Rightarrow> Inr v)"

text \<open>
  \<^verbatim>\<open>round(x, 2)\<close> on a float rounds its value to the nearest multiple of one
  hundredth, a value exactly half way between two of them going to the even one.
\<close>

definition round_half_even :: "real \<Rightarrow> int" where
  "round_half_even y =
     (let f = \<lfloor>y\<rfloor>; d = y - of_int f
      in if d < 1 / 2 then f
         else if 1 / 2 < d then f + 1
         else if even f then f else f + 1)"

definition py_round2 :: "real \<Rightarrow> real" where
  "py_round2 x = of_int (round_half_even (x * 100)) / 100"

section \<open>The lookup table\<close>

text \<open>\<^verbatim>\<open>PER_DIEM_TABLE\<close> (lines 5-9): a dictionary of dictionaries, keyed by strings.\<close>

definition PER_DIEM_TABLE :: "(string \<times> (string \<times> real) list) list" where
  "PER_DIEM_TABLE =
     [(''Low'', [(''BaseRate'', 15), (''MieRate'', 5)]),
      (''Medium'', [(''BaseRate'', 50), (''MieRate'', 15)]),
      (''High'', [(''BaseRate'', 65), (''MieRate'', 20)])]"

text \<open>\<^verbatim>\<open>PER_DIEM_TABLE[location][key]\<close> (lines 34-35).\<close>

definition table_rate :: "string \<Rightarrow> string \<Rightarrow> py_error + real" where
  "table_rate location key =
     (case py_getitem PER_DIEM_TABLE location of
        Inl e \<Rightarrow> Inl e
      | Inr row \<Rightarrow> py_getitem row key)"

section \<open>The steps of \<^verbatim>\<open>calculate_reimbursement\<close>\<close>

text \<open>Step 1 (line 24): the efficiency, miles per day, with the guard on the divisor.\<close>

definition efficiency_of :: "int \<Rightarrow> real \<Rightarrow> py_error + real" where
  "efficiency_of trip_duration_days miles_traveled =
     (if trip_duration_days > 0
      then py_truediv miles_traveled (of_int trip_duration_days)
      else Inr 0)"

text \<open>Step 2 (lines 27-32): the location, as the string the table is subscripted with.\<close>

definition location_of :: "int \<Rightarrow> real \<Rightarrow> real \<Rightarrow> real \<Rightarrow> string" where
  "location_of trip_duration_days miles_traveled total_receipts_amount efficiency =
     (if efficiency > 200 \<or> (miles_traveled > 800 \<and> total_receipts_amount > 1000)
      then ''High''
      else if efficiency < 50 \<or> (trip_duration_days > 7 \<and> efficiency < 100)
      then ''Low''
      else ''Medium'')"

text \<open>Step 3 (lines 39-51): the per diem with its duration factor.\<close>

definition duration_factor_of :: "int \<Rightarrow> string \<Rightarrow> real" where
  "duration_factor_of trip_duration_days location =
     (if trip_duration_days = 5 then 1.15
      else if trip_duration_days > 7 then (if location = ''Low'' then 0.40 else 0.80)
      else 1.0)"

definition per_diem_of :: "int \<Rightarrow> string \<Rightarrow> real \<Rightarrow> real \<Rightarrow> real" where
  "per_diem_of trip_duration_days location base_rate m_and_ie_rate =
     (let per_diem =
            (if trip_duration_days \<ge> 2
             then (base_rate + m_and_ie_rate) * of_int (trip_duration_days - 2) +
                  (base_rate + m_and_ie_rate * 0.75) * 2
             else (base_rate + m_and_ie_rate) * of_int trip_duration_days)
      in per_diem * duration_factor_of trip_duration_days location)"

text \<open>Step 4 (lines 54-71): the tiered mileage and the efficiency factor on it.\<close>

definition mileage_tiers :: "real \<Rightarrow> real" where
  "mileage_tiers miles_traveled =
     (if miles_traveled \<ge> 50
      then (if miles_traveled \<le> 100 then miles_traveled * 0.70
            else if miles_traveled \<le> 500 then (100 * 0.70) + ((miles_traveled - 100) * 0.60)
            else (100 * 0.70) + (400 * 0.60) + ((miles_traveled - 500) * 0.50))
      else 0.0)"

definition efficiency_factor_of :: "real \<Rightarrow> int \<Rightarrow> real" where
  "efficiency_factor_of efficiency trip_duration_days =
     (if efficiency > 200 then 1.20
      else if efficiency > 100 \<and> efficiency \<le> 200 then 1.15
      else if efficiency > 300 \<and> trip_duration_days > 1 then 0.90
      else 1.0)"

definition mileage_reimbursement_of :: "real \<Rightarrow> real \<Rightarrow> int \<Rightarrow> real" where
  "mileage_reimbursement_of miles_traveled efficiency trip_duration_days =
     mileage_tiers miles_traveled * efficiency_factor_of efficiency trip_duration_days"

text \<open>Step 5 (lines 74-81): the receipt adjustment.\<close>

definition receipt_adjustment_of :: "real \<Rightarrow> int \<Rightarrow> real \<Rightarrow> real \<Rightarrow> real" where
  "receipt_adjustment_of total_receipts_amount trip_duration_days per_diem efficiency =
     (if total_receipts_amount < 50 then per_diem
      else if total_receipts_amount \<le> 500 \<and> trip_duration_days \<le> 6
      then min (per_diem * 0.8) total_receipts_amount
      else (let excess = min (total_receipts_amount - per_diem)
                             (if efficiency < 100 then 200 else 500)
            in per_diem + excess * 0.15))"

text \<open>Step 6 (lines 36, 84-85): the cycle factor.\<close>

definition cycle_factor_of :: "string \<Rightarrow> real \<Rightarrow> real" where
  "cycle_factor_of location efficiency =
     (if location = ''Low'' \<and> efficiency < 100 then 1.0 * 0.85 else 1.0)"

text \<open>Step 8 (lines 92-93): the cap for low-effort trips.\<close>

definition low_effort_cap :: "real \<Rightarrow> int \<Rightarrow> real \<Rightarrow> real" where
  "low_effort_cap efficiency trip_duration_days reimbursement =
     (if efficiency < 50
      then min reimbursement (of_int (trip_duration_days * 100))
      else reimbursement)"

text \<open>
  Step 9 (lines 96-98): the noise. \<^verbatim>\<open>random.random()\<close> is the argument
  \<open>rnd\<close>, the number the generator hands out at this call; it is read only when
  \<^verbatim>\<open>add_noise\<close> is set.
\<close>

definition apply_noise :: "bool \<Rightarrow> real \<Rightarrow> real \<Rightarrow> real" where
  "apply_noise add_noise rnd reimbursement =
     (if add_noise then reimbursement * (0.95 + (rnd * 0.10)) else reimbursement)"

text \<open>
  Steps 1 to 8 (lines 24-93): the amount after the cap, before noise and rounding.
\<close>

definition capped_reimbursement :: "int \<Rightarrow> real \<Rightarrow> real \<Rightarrow> py_error + real" where
  "capped_reimbursement trip_duration_days miles_traveled total_receipts_amount =
     (case efficiency_of trip_duration_days miles_traveled of
        Inl e \<Rightarrow> Inl e
      | Inr efficiency \<Rightarrow>
          (let location = location_of trip_duration_days miles_traveled
                            total_receipts_amount efficiency
           in case table_rate location ''BaseRate'' of
                Inl e \<Rightarrow> Inl e
              | Inr base_rate \<Rightarrow>
                  (case table_rate location ''MieRate'' of
                     Inl e \<Rightarrow> Inl e
                   | Inr m_and_ie_rate \<Rightarrow>
                       (let per_diem = per_diem_of trip_duration_days location
                                         base_rate m_and_ie_rate;
                            mileage_reimbursement =
                              mileage_reimbursement_of miles_traveled efficiency
                                trip_duration_days;
                            receipt_adjustment =
                              receipt_adjustment_of total_receipts_amount
                                trip_duration_days per_diem efficiency;
                            reimbursement =
                              (per_diem + mileage_reimbursement + receipt_adjustment) *
                              cycle_factor_of location efficiency
                        in Inr (low_effort_cap efficiency trip_duration_days
                                  reimbursement)))))"

text \<open>
  The whole function (lines 11-103). \<^verbatim>\<open>use_system_date\<close> is a parameter of the
  source and so of the model.
\<close>

definition calculate_reimbursement ::
    "int \<Rightarrow> real \<Rightarrow> real \<Rightarrow> bool \<Rightarrow> bool \<Rightarrow> real \<Rightarrow> py_error + real" where
  "calculate_reimbursement trip_duration_days miles_traveled total_receipts_amount
       use_system_date add_noise rnd =
     (case capped_reimbursement trip_duration_days miles_traveled total_receipts_amount of
        Inl e \<Rightarrow> Inl e
      | Inr reimbursement \<Rightarrow> Inr (py_round2 (apply_noise add_noise rnd reimbursement)))"

section \<open>The function with the third efficiency branch removed\<close>

text \<open>
  The source again, with the branch of lines 68-69
  (\<^verbatim>\<open>elif efficiency > 300 and trip_duration_days > 1\<close>) deleted and nothing
  else changed. It is what the original is compared with.
\<close>

definition efficiency_factor_without_branch :: "real \<Rightarrow> int \<Rightarrow> real" where
  "efficiency_factor_without_branch efficiency trip_duration_days =
     (if efficiency > 200 then 1.20
      else if efficiency > 100 \<and> efficiency \<le> 200 then 1.15
      else 1.0)"

definition capped_reimbursement_without_branch :: "int \<Rightarrow> real \<Rightarrow> real \<Rightarrow> py_error + real" where
  "capped_reimbursement_without_branch trip_duration_days miles_traveled
       total_receipts_amount =
     (case efficiency_of trip_duration_days miles_traveled of
        Inl e \<Rightarrow> Inl e
      | Inr efficiency \<Rightarrow>
          (let location = location_of trip_duration_days miles_traveled
                            total_receipts_amount efficiency
           in case table_rate location ''BaseRate'' of
                Inl e \<Rightarrow> Inl e
              | Inr base_rate \<Rightarrow>
                  (case table_rate location ''MieRate'' of
                     Inl e \<Rightarrow> Inl e
                   | Inr m_and_ie_rate \<Rightarrow>
                       (let per_diem = per_diem_of trip_duration_days location
                                         base_rate m_and_ie_rate;
                            mileage_reimbursement =
                              mileage_tiers miles_traveled *
                              efficiency_factor_without_branch efficiency
                                trip_duration_days;
                            receipt_adjustment =
                              receipt_adjustment_of total_receipts_amount
                                trip_duration_days per_diem efficiency;
                            reimbursement =
                              (per_diem + mileage_reimbursement + receipt_adjustment) *
                              cycle_factor_of location efficiency
                        in Inr (low_effort_cap efficiency trip_duration_days
                                  reimbursement)))))"

definition calculate_reimbursement_without_branch ::
    "int \<Rightarrow> real \<Rightarrow> real \<Rightarrow> bool \<Rightarrow> bool \<Rightarrow> real \<Rightarrow> py_error + real" where
  "calculate_reimbursement_without_branch trip_duration_days miles_traveled
       total_receipts_amount use_system_date add_noise rnd =
     (case capped_reimbursement_without_branch trip_duration_days miles_traveled
             total_receipts_amount of
        Inl e \<Rightarrow> Inl e
      | Inr reimbursement \<Rightarrow> Inr (py_round2 (apply_noise add_noise rnd reimbursement)))"

section \<open>The command line\<close>

text \<open>
  \<^verbatim>\<open>main\<close> (lines 105-118) reads \<^verbatim>\<open>sys.argv\<close>, whose first entry is the
  script, and ends the process with what it printed on the two streams and an exit
  status. The built-ins it calls are parameters of the model: \<^verbatim>\<open>int\<close> and
  \<^verbatim>\<open>float\<close> on a string give the number or raise \<^verbatim>\<open>ValueError\<close> (here
  \<open>Inl\<close> of the exception's message), and \<^verbatim>\<open>print\<close> writes the text of a
  float. An exception that \<^verbatim>\<open>main\<close> does not catch ends the process with a
  traceback on standard error and status 1.
\<close>

record py_builtins =
  int_of_str :: "string \<Rightarrow> string + int"
  float_of_str :: "string \<Rightarrow> string + real"
  str_of_float :: "real \<Rightarrow> string"

datatype stderr_item = Printed string | Traceback py_error

record process_result =
  stdout :: "string list"
  stderr :: "stderr_item list"
  exit_status :: int

definition usage_message :: string where
  "usage_message =
     ''Usage: python3 calculate_reimbursement.py <trip_duration_days> <miles_traveled> <total_receipts_amount>''"

text \<open>The handler of lines 116-118.\<close>

definition invalid_input :: "string \<Rightarrow> process_result" where
  "invalid_input e =
     \<lparr>stdout = [],
      stderr = [Printed (''Error: Invalid input format ('' @ e @ '')'')],
      exit_status = 1\<rparr>"

definition main :: "py_builtins \<Rightarrow> real \<Rightarrow> string list \<Rightarrow> process_result" where
  "main py rnd argv =
     (if length argv \<noteq> 4
      then \<lparr>stdout = [], stderr = [Printed usage_message], exit_status = 1\<rparr>
      else
        (case int_of_str py (argv ! 1) of
           Inl e \<Rightarrow> invalid_input e
         | Inr trip_duration_days \<Rightarrow>
             (case float_of_str py (argv ! 2) of
                Inl e \<Rightarrow> invalid_input e
              | Inr miles_traveled \<Rightarrow>
                  (case float_of_str py (argv ! 3) of
                     Inl e \<Rightarrow> invalid_input e
                   | Inr total_receipts_amount \<Rightarrow>
                       (case calculate_reimbursement trip_duration_days miles_traveled
                               total_receipts_amount False False rnd of
                          Inl err \<Rightarrow>
                            \<lparr>stdout = [], stderr = [Traceback err], exit_status = 1\<rparr>
                        | Inr result \<Rightarrow>
                            \<lparr>stdout = [str_of_float py result], stderr = [],
                             exit_status = 0\<rparr>)))))"

section \<open>Facts about the steps\<close>

lemma efficiency_of_eq:
  "efficiency_of d m = Inr (if d > 0 then m / of_int d else 0)"
  by (simp add: efficiency_of_def py_truediv_def)

lemma location_of_cases:
  "location_of d m r e = ''High'' \<or> location_of d m r e = ''Low'' \<or> location_of d m r e = ''Medium''"
  by (simp add: location_of_def)

lemma table_rate_High: "table_rate ''High'' ''BaseRate'' = Inr 65" "table_rate ''High'' ''MieRate'' = Inr 20"
  by (simp_all add: table_rate_def py_getitem_def PER_DIEM_TABLE_def)
lemma table_rate_Low: "table_rate ''Low'' ''BaseRate'' = Inr 15" "table_rate ''Low'' ''MieRate'' = Inr 5"
  by (simp_all add: table_rate_def py_getitem_def PER_DIEM_TABLE_def)
lemma table_rate_Medium: "table_rate ''Medium'' ''BaseRate'' = Inr 50" "table_rate ''Medium'' ''MieRate'' = Inr 15"
  by (simp_all add: table_rate_def py_getitem_def PER_DIEM_TABLE_def)

lemma round_half_even_bounds:
  "of_int (round_half_even y) \<le> y + 1 / 2" "y - 1 / 2 \<le> of_int (round_half_even y)"
  unfolding round_half_even_def Let_def by (auto split: if_splits) linarith+

lemma round_half_even_le_int:
  assumes "y \<le> of_int n" shows "round_half_even y \<le> n"
proof -
  have "of_int (round_half_even y) \<le> (of_int n :: real) + 1 / 2"
    using round_half_even_bounds(1) [of y] assms by linarith
  then show ?thesis by linarith
qed

lemma round_half_even_ge_int:
  assumes "of_int n \<le> y" shows "n \<le> round_half_even y"
proof -
  have "(of_int n :: real) - 1 / 2 \<le> of_int (round_half_even y)"
    using round_half_even_bounds(2) [of y] assms by linarith
  then show ?thesis by linarith
qed


lemma table_rate_location:
  "table_rate (location_of d m r e) ''BaseRate'' =
     Inr (if location_of d m r e = ''High'' then 65
          else if location_of d m r e = ''Low'' then 15 else 50)"
  "table_rate (location_of d m r e) ''MieRate'' =
     Inr (if location_of d m r e = ''High'' then 20
          else if location_of d m r e = ''Low'' then 5 else 15)"
  using location_of_cases [of d m r e]
  by (auto simp: table_rate_High table_rate_Low table_rate_Medium)

lemma capped_reimbursement_eq:
  "capped_reimbursement d m r =
     (let e = (if d > 0 then m / of_int d else 0);
          l = location_of d m r e;
          b = (if l = ''High'' then 65 else if l = ''Low'' then 15 else 50);
          mi = (if l = ''High'' then 20 else if l = ''Low'' then 5 else 15);
          pd = per_diem_of d l b mi
      in Inr (low_effort_cap e d
                ((pd + mileage_reimbursement_of m e d + receipt_adjustment_of r d pd e) *
                 cycle_factor_of l e)))"
  by (simp add: capped_reimbursement_def efficiency_of_eq table_rate_location Let_def)

lemma duration_factor_nonneg: "0 \<le> duration_factor_of d l"
  by (simp add: duration_factor_of_def)

lemma per_diem_nonneg:
  assumes "1 \<le> d" "0 \<le> b" "0 \<le> mi"
  shows "0 \<le> per_diem_of d l b mi"
proof -
  have "0 \<le> (b + mi) * of_int (d - 2) + (b + mi * 0.75) * 2" if "2 \<le> d"
    using that assms by simp
  moreover have "0 \<le> (b + mi) * of_int d"
    using assms by simp
  ultimately show ?thesis
    by (simp add: per_diem_of_def Let_def duration_factor_nonneg)
qed

lemma mileage_tiers_nonneg: "0 \<le> m \<Longrightarrow> 0 \<le> mileage_tiers m"
  by (simp add: mileage_tiers_def)

lemma efficiency_factor_nonneg: "0 \<le> efficiency_factor_of e d"
  by (simp add: efficiency_factor_of_def)

lemma mileage_reimbursement_nonneg: "0 \<le> m \<Longrightarrow> 0 \<le> mileage_reimbursement_of m e d"
  by (simp add: mileage_reimbursement_of_def mileage_tiers_nonneg efficiency_factor_nonneg)

lemma receipt_adjustment_nonneg:
  assumes "0 \<le> r" "0 \<le> pd"
  shows "0 \<le> receipt_adjustment_of r d pd e"
proof -
  have "0 \<le> pd + min (r - pd) c * 0.15" if "0 \<le> c" for c :: real
    using that assms unfolding min_def by (simp split: if_splits) argo
  from this [of 200] this [of 500] assms show ?thesis
    by (simp add: receipt_adjustment_of_def Let_def)
qed

lemma cycle_factor_nonneg: "0 \<le> cycle_factor_of l e"
  by (simp add: cycle_factor_of_def)

lemma low_effort_cap_nonneg: "0 \<le> x \<Longrightarrow> 0 \<le> d \<Longrightarrow> 0 \<le> low_effort_cap e d x"
  by (simp add: low_effort_cap_def)

lemma low_effort_cap_le: "e < 50 \<Longrightarrow> low_effort_cap e d x \<le> of_int (d * 100)"
  by (simp add: low_effort_cap_def)

lemma py_round2_le_int:
  assumes "x \<le> of_int n" shows "py_round2 x \<le> of_int n"
proof -
  have "x * 100 \<le> of_int (n * 100)" using assms by simp
  then have "round_half_even (x * 100) \<le> n * 100" by (rule round_half_even_le_int)
  then have "(of_int (round_half_even (x * 100)) :: real) \<le> of_int (n * 100)"
    by (simp only: of_int_le_iff)
  then show ?thesis by (simp add: py_round2_def)
qed

lemma py_round2_nonneg:
  assumes "0 \<le> x" shows "0 \<le> py_round2 x"
proof -
  have "of_int 0 \<le> x * 100" using assms by simp
  then have "0 \<le> round_half_even (x * 100)" by (rule round_half_even_ge_int)
  then show ?thesis by (simp add: py_round2_def)
qed

lemma capped_reimbursement_nonneg:
  assumes "1 \<le> d" "0 \<le> m" "0 \<le> r"
  shows "\<exists>c. capped_reimbursement d m r = Inr c \<and> 0 \<le> c"
proof -
  let ?e = "if d > 0 then m / of_int d else 0"
  let ?l = "location_of d m r ?e"
  let ?b = "if ?l = ''High'' then 65 else if ?l = ''Low'' then 15 else (50::real)"
  let ?mi = "if ?l = ''High'' then 20 else if ?l = ''Low'' then 5 else (15::real)"
  let ?pd = "per_diem_of d ?l ?b ?mi"
  have pd: "0 \<le> ?pd" using assms(1) by (intro per_diem_nonneg) simp_all
  have "0 \<le> (?pd + mileage_reimbursement_of m ?e d + receipt_adjustment_of r d ?pd ?e) *
              cycle_factor_of ?l ?e"
    using pd mileage_reimbursement_nonneg [OF assms(2)] receipt_adjustment_nonneg [OF assms(3) pd]
      cycle_factor_nonneg
    by (intro mult_nonneg_nonneg add_nonneg_nonneg)
  then have "0 \<le> low_effort_cap ?e d
      ((?pd + mileage_reimbursement_of m ?e d + receipt_adjustment_of r d ?pd ?e) *
       cycle_factor_of ?l ?e)"
    using assms(1) by (intro low_effort_cap_nonneg) simp_all
  then show ?thesis
    by (simp add: capped_reimbursement_eq Let_def)
qed

lemma capped_reimbursement_capped:
  assumes "1 \<le> d" "m / of_int d < 50"
  shows "\<exists>c. capped_reimbursement d m r = Inr c \<and> c \<le> of_int (d * 100)"
  using assms low_effort_cap_le [of "m / of_int d" d]
  by (simp add: capped_reimbursement_eq Let_def)

text \<open>The definitions a concrete call is evaluated with.\<close>

lemmas step_defs =
  calculate_reimbursement_def capped_reimbursement_def efficiency_of_def py_truediv_def
  location_of_def table_rate_def py_getitem_def PER_DIEM_TABLE_def per_diem_of_def
  duration_factor_of_def mileage_reimbursement_of_def mileage_tiers_def
  efficiency_factor_of_def receipt_adjustment_of_def cycle_factor_of_def
  low_effort_cap_def apply_noise_def py_round2_def round_half_even_def Let_def

section \<open>The claims\<close>

subsection \<open>C1: the boundary scenario of 5 days, 500 miles, 600 in receipts\<close>

text \<open>
  C1, as the specification states it: the call with days 5, miles 500, receipts 600
  and no noise returns 1078.14. It does not: the per diem before the duration factor
  is \<open>65 * 3 + (50 + 15 * 0.75) * 2 = 195 + 122.5 = 317.5\<close> (not 318.75), so the
  call returns another amount.
\<close>

theorem scenario_5_500_600_is_not_1078_14:
  "calculate_reimbursement 5 500 600 False False 0 \<noteq> Inr 1078.14"
  by (simp add: step_defs)

text \<open>
  C1, amended: for days 5, miles 500, receipts 600 and no noise, the efficiency is
  exactly 100, the location is Medium, the efficiency factor on the mileage stays 1.0,
  and the function returns exactly 1075.48, whatever \<^verbatim>\<open>use_system_date\<close> is.
\<close>

theorem scenario_5_500_600:
  "efficiency_of 5 500 = Inr 100 \<and>
   location_of 5 500 600 100 = ''Medium'' \<and>
   efficiency_factor_of 100 5 = 1.0 \<and>
   calculate_reimbursement 5 500 600 use_system_date False rnd = Inr 1075.48"
  by (simp add: step_defs)

subsection \<open>C2: the third efficiency branch is dead\<close>

text \<open>
  C2: the branch \<^verbatim>\<open>elif efficiency > 300 and trip_duration_days > 1\<close> of lines
  68-69 is never taken. For every efficiency and every number of days the efficiency
  factor is 1.20, 1.15 or 1.0 and never 0.90; the condition of the branch cannot hold
  once the two conditions before it have failed; and the function with the branch
  deleted returns what the function returns, on every input, flag and random draw.
\<close>

theorem efficiency_branch_unreachable:
  "efficiency_factor_of efficiency days \<noteq> 0.90 \<and>
   efficiency_factor_of efficiency days \<in> {1.20, 1.15, 1.0} \<and>
   \<not> (\<not> efficiency > 200 \<and> \<not> (efficiency > 100 \<and> efficiency \<le> 200) \<and>
      efficiency > 300 \<and> days > 1) \<and>
   efficiency_factor_without_branch efficiency days = efficiency_factor_of efficiency days \<and>
   calculate_reimbursement_without_branch trip_duration_days miles_traveled
       total_receipts_amount use_system_date add_noise rnd =
     calculate_reimbursement trip_duration_days miles_traveled total_receipts_amount
       use_system_date add_noise rnd"
proof -
  have eq: "efficiency_factor_without_branch e n = efficiency_factor_of e n" for e n
    by (simp add: efficiency_factor_without_branch_def efficiency_factor_of_def)
  have "capped_reimbursement_without_branch trip_duration_days miles_traveled
          total_receipts_amount =
        capped_reimbursement trip_duration_days miles_traveled total_receipts_amount"
    by (simp add: capped_reimbursement_without_branch_def capped_reimbursement_def
        mileage_reimbursement_of_def eq Let_def split: sum.splits)
  then have "calculate_reimbursement_without_branch trip_duration_days miles_traveled
       total_receipts_amount use_system_date add_noise rnd =
     calculate_reimbursement trip_duration_days miles_traveled total_receipts_amount
       use_system_date add_noise rnd"
    by (simp add: calculate_reimbursement_without_branch_def calculate_reimbursement_def)
  moreover have "efficiency_factor_of efficiency days \<noteq> 0.90"
    by (simp add: efficiency_factor_of_def)
  moreover have "efficiency_factor_of efficiency days \<in> {1.20, 1.15, 1.0}"
    by (simp add: efficiency_factor_of_def)
  ultimately show ?thesis using eq by simp
qed

subsection \<open>C3: the low-effort cap\<close>

text \<open>
  C3: for every integer number of days at least 1, miles and receipts not negative and
  no noise, when the efficiency miles/days is below 50 the function returns a value,
  and that value is at most 100 times the days.
\<close>

theorem low_effort_cap_bounds_result:
  assumes "1 \<le> trip_duration_days" "0 \<le> miles_traveled" "0 \<le> total_receipts_amount"
    and "miles_traveled / of_int trip_duration_days < 50"
  shows "\<exists>v. calculate_reimbursement trip_duration_days miles_traveled total_receipts_amount
                 use_system_date False rnd = Inr v \<and>
              v \<le> of_int (trip_duration_days * 100)"
proof -
  obtain c where c:
      "capped_reimbursement trip_duration_days miles_traveled total_receipts_amount = Inr c"
      "c \<le> of_int (trip_duration_days * 100)"
    using capped_reimbursement_capped [OF assms(1,4)] by blast
  from c(2) have "py_round2 c \<le> of_int (trip_duration_days * 100)"
    by (rule py_round2_le_int)
  with c(1) show ?thesis
    by (simp add: calculate_reimbursement_def apply_noise_def)
qed

text \<open>
  The cap at work: 20 days, 900 miles (45 a day) and 1100 in receipts add up to
  3176.20 before the cap, and the call returns at most 2000.
\<close>

theorem low_effort_cap_bounds_result_witness:
  "(1::int) \<le> 20 \<and> (0::real) \<le> 900 \<and> (0::real) \<le> 1100 \<and> (900::real) / of_int 20 < 50 \<and>
   (\<exists>v. calculate_reimbursement 20 900 1100 False False 0 = Inr v \<and> v \<le> 2000)"
  using low_effort_cap_bounds_result [of 20 900 1100 False 0] by simp

subsection \<open>C4: determinism without noise, and the unused flag\<close>

text \<open>
  C4: with \<^verbatim>\<open>add_noise\<close> false the result is a function of days, miles and
  receipts alone: it depends neither on \<^verbatim>\<open>use_system_date\<close> nor on what the
  random generator would have handed out.
\<close>

theorem deterministic_without_noise:
  "calculate_reimbursement trip_duration_days miles_traveled total_receipts_amount
     use_system_date False rnd =
   calculate_reimbursement trip_duration_days miles_traveled total_receipts_amount
     use_system_date' False rnd'"
  by (simp add: calculate_reimbursement_def apply_noise_def split: sum.splits)

subsection \<open>C5: two decimal places\<close>

text \<open>
  C5: for every input and every value of the flags and of the random draw, the function
  returns a value, and 100 times that value is an integer.
\<close>

theorem result_has_two_decimals:
  "\<exists>v. calculate_reimbursement trip_duration_days miles_traveled total_receipts_amount
          use_system_date add_noise rnd = Inr v \<and>
        (\<exists>k::int. v * 100 = of_int k)"
proof -
  obtain c where
    "capped_reimbursement trip_duration_days miles_traveled total_receipts_amount = Inr c"
    by (simp add: capped_reimbursement_eq Let_def)
  moreover have "py_round2 x * 100 = of_int (round_half_even (x * 100))" for x
    by (simp add: py_round2_def)
  ultimately show ?thesis
    by (auto simp: calculate_reimbursement_def)
qed

subsection \<open>C6: the receipt adjustment\<close>

text \<open>
  C6: for every input, the receipt adjustment is the per diem when the receipts are
  below 50; else, when the receipts are at most 500 and the days at most 6, the smaller
  of 0.8 times the per diem and the receipts; otherwise the per diem plus 0.15 times
  the smaller of receipts minus per diem and a bound, 200 when the efficiency is below
  100 and 500 when it is not. In that last case receipts below the per diem give an
  adjustment below the per diem.
\<close>

theorem receipt_adjustment_rule:
  "receipt_adjustment_of total_receipts_amount trip_duration_days per_diem efficiency =
     (if total_receipts_amount < 50 then per_diem
      else if total_receipts_amount \<le> 500 \<and> trip_duration_days \<le> 6
      then min (per_diem * 0.8) total_receipts_amount
      else per_diem + 0.15 * min (total_receipts_amount - per_diem)
                                 (if efficiency < 100 then 200 else 500)) \<and>
   (50 \<le> total_receipts_amount \<and>
    (500 < total_receipts_amount \<or> 6 < trip_duration_days) \<and>
    total_receipts_amount < per_diem \<longrightarrow>
    receipt_adjustment_of total_receipts_amount trip_duration_days per_diem efficiency
      < per_diem)"
  by (simp add: receipt_adjustment_of_def Let_def min_def)

text \<open>
  Seven days with 60 in receipts against a per diem of 100: the excess is -40 and the
  adjustment 94.
\<close>

theorem receipt_adjustment_rule_witness:
  "(50::real) \<le> 60 \<and> (6::int) < 7 \<and> (60::real) < 100 \<and>
   receipt_adjustment_of 60 7 100 10 = 94 \<and>
   receipt_adjustment_of 60 7 100 10 < 100"
  using receipt_adjustment_rule [of 60 7 100 10] by simp

subsection \<open>C7: the calculation cannot fail\<close>


subsection \<open>C8: a wrong number of arguments\<close>

text \<open>
  C8: when the number of arguments after the script's name is not 3, that is when
  \<^verbatim>\<open>sys.argv\<close> has not 4 entries, the program prints the usage message on
  standard error, nothing on standard output, and exits with status 1.
\<close>

theorem wrong_argument_count:
  assumes "length argv \<noteq> 4"
  shows "main py rnd argv =
           \<lparr>stdout = [], stderr = [Printed usage_message], exit_status = 1\<rparr>"
  using assms by (simp add: main_def)

text \<open>An invocation with 2 arguments.\<close>

theorem wrong_argument_count_witness:
  "length [''calculate_reimbursement.py'', ''5'', ''500''] \<noteq> 4 \<and>
   (\<forall>py rnd. main py rnd [''calculate_reimbursement.py'', ''5'', ''500''] =
       \<lparr>stdout = [], stderr = [Printed usage_message], exit_status = 1\<rparr>)"
  using wrong_argument_count [of "[''calculate_reimbursement.py'', ''5'', ''500'']"]
  by simp

subsection \<open>C9: the noise comes after the cap\<close>

text \<open>
  C9: the amount \<open>c\<close> after the cap of step 8 is what the function rounds when
  \<^verbatim>\<open>add_noise\<close> is false, and with \<^verbatim>\<open>add_noise\<close> true it rounds \<open>c\<close>
  times \<open>0.95 + 0.10 * rnd\<close>, where \<open>rnd\<close> is the random draw; \<open>c\<close> is at most 100
  times the days when the efficiency is below 50. For a draw in \<open>[0, 1)\<close> the factor
  lies in \<open>[0.95, 1.05)\<close>. So there are inputs on the documented domain with an
  efficiency below 50 and a draw in \<open>[0, 1)\<close> for which the function returns more than
  100 times the days.
\<close>

theorem noise_applied_after_cap:
  "(\<exists>c. capped_reimbursement trip_duration_days miles_traveled total_receipts_amount =
          Inr c \<and>
        calculate_reimbursement trip_duration_days miles_traveled total_receipts_amount
          use_system_date False rnd = Inr (py_round2 c) \<and>
        calculate_reimbursement trip_duration_days miles_traveled total_receipts_amount
          use_system_date True rnd = Inr (py_round2 (c * (0.95 + 0.10 * rnd))) \<and>
        (1 \<le> trip_duration_days \<and> miles_traveled / of_int trip_duration_days < 50 \<longrightarrow>
           c \<le> of_int (trip_duration_days * 100))) \<and>
   (0 \<le> rnd \<and> rnd < 1 \<longrightarrow> 0.95 \<le> 0.95 + 0.10 * rnd \<and> 0.95 + 0.10 * rnd < 1.05) \<and>
   (\<exists>d m r rnd' v. 1 \<le> d \<and> 0 \<le> m \<and> 0 \<le> r \<and> 0 \<le> rnd' \<and> rnd' < 1 \<and>
        m / of_int d < 50 \<and>
        calculate_reimbursement d m r use_system_date True rnd' = Inr v \<and>
        of_int (d * 100) < v)"
proof -
  obtain c where c:
    "capped_reimbursement trip_duration_days miles_traveled total_receipts_amount = Inr c"
    by (simp add: capped_reimbursement_eq Let_def)
  have cap: "c \<le> of_int (trip_duration_days * 100)"
    if "1 \<le> trip_duration_days" "miles_traveled / of_int trip_duration_days < 50"
    using capped_reimbursement_capped [OF that, of total_receipts_amount] c by simp
  have first:
    "\<exists>c. capped_reimbursement trip_duration_days miles_traveled total_receipts_amount =
          Inr c \<and>
        calculate_reimbursement trip_duration_days miles_traveled total_receipts_amount
          use_system_date False rnd = Inr (py_round2 c) \<and>
        calculate_reimbursement trip_duration_days miles_traveled total_receipts_amount
          use_system_date True rnd = Inr (py_round2 (c * (0.95 + 0.10 * rnd))) \<and>
        (1 \<le> trip_duration_days \<and> miles_traveled / of_int trip_duration_days < 50 \<longrightarrow>
           c \<le> of_int (trip_duration_days * 100))"
    using c cap by (simp add: calculate_reimbursement_def apply_noise_def mult.commute)
  have ex: "calculate_reimbursement 20 900 1100 use_system_date True (9 / 10) = Inr 2080"
    by (simp add: step_defs)
  have last: "\<exists>d m r rnd' v. 1 \<le> d \<and> 0 \<le> m \<and> 0 \<le> r \<and> 0 \<le> rnd' \<and> rnd' < 1 \<and>
        m / of_int d < 50 \<and>
        calculate_reimbursement d m r use_system_date True rnd' = Inr v \<and>
        of_int (d * 100) < v"
    by (rule exI [of _ 20], rule exI [of _ 900], rule exI [of _ 1100],
        rule exI [of _ "9 / 10"], rule exI [of _ 2080]) (simp add: ex)
  show ?thesis using first last by simp
qed

text \<open>
  Twenty days, 900 miles, 1100 in receipts and a draw of 0.9: the amount after the cap
  is at most 2000, and the function rounds 1.04 times it.
\<close>

theorem noise_applied_after_cap_witness:
  "(1::int) \<le> 20 \<and> (900::real) / of_int 20 < 50 \<and> (0::real) \<le> 9 / 10 \<and> (9 / 10 :: real) < 1 \<and>
   (\<exists>c. capped_reimbursement 20 900 1100 = Inr c \<and> c \<le> 2000 \<and>
        calculate_reimbursement 20 900 1100 False True (9 / 10) =
          Inr (py_round2 (c * (0.95 + 0.10 * (9 / 10)))))"
  using noise_applied_after_cap [of 20 900 1100 False "9 / 10"] by auto

subsection \<open>C10: the result is not negative on the documented domain\<close>

text \<open>
  C10: for every integer number of days at least 1, miles and receipts not negative and
  no noise, the function returns a value that is at least 0.
\<close>

theorem result_nonneg:
  assumes "1 \<le> trip_duration_days" "0 \<le> miles_traveled" "0 \<le> total_receipts_amount"
  shows "\<exists>v. calculate_reimbursement trip_duration_days miles_traveled total_receipts_amount
                 use_system_date False rnd = Inr v \<and> 0 \<le> v"
proof -
  obtain c where c:
      "capped_reimbursement trip_duration_days miles_traveled total_receipts_amount = Inr c"
      "0 \<le> c"
    using capped_reimbursement_nonneg [OF assms] by blast
  from c(2) have "0 \<le> py_round2 c" by (rule py_round2_nonneg)
  with c(1) show ?thesis
    by (simp add: calculate_reimbursement_def apply_noise_def)
qed

theorem result_nonneg_witness:
  "(1::int) \<le> 1 \<and> (0::real) \<le> 10 \<and> (0::real) \<le> 0 \<and>
   (\<exists>v. calculate_reimbursement 1 10 0 False False 0 = Inr v \<and> 0 \<le> v)"
  using result_nonneg [of 1 10 0 False 0] by simp

end
